theory Spec2Isabelle
  imports Complex_Main
begin

section \<open>Numbers\<close>

text \<open>
  The assessor of \<^verbatim>\<open>src/assessor.ts\<close> computes on JavaScript numbers. A number is
  modelled as an exact rational or one of the three special values \<^verbatim>\<open>NaN\<close>,
  \<^verbatim>\<open>Infinity\<close> and \<^verbatim>\<open>-Infinity\<close>, with the arithmetic and comparison rules
  of ECMAScript on them. The arithmetic on finite numbers is exact: the rounding of
  IEEE-754 binary64, overflow to an infinity and the negative zero are outside
  the model.
\<close>

datatype number = Finite rat | NaN | PosInfinity | NegInfinity

text \<open>\<^verbatim>\<open>a + b\<close>\<close>

fun js_add :: "number \<Rightarrow> number \<Rightarrow> number" where
  "js_add (Finite a) (Finite b) = Finite (a + b)"
| "js_add NaN _ = NaN"
| "js_add _ NaN = NaN"
| "js_add PosInfinity NegInfinity = NaN"
| "js_add NegInfinity PosInfinity = NaN"
| "js_add PosInfinity _ = PosInfinity"
| "js_add _ PosInfinity = PosInfinity"
| "js_add NegInfinity _ = NegInfinity"
| "js_add _ NegInfinity = NegInfinity"

text \<open>The sign of a product or quotient with an infinite operand.\<close>

definition signed_infinity :: "bool \<Rightarrow> number" where
  "signed_infinity negative = (if negative then NegInfinity else PosInfinity)"

text \<open>\<^verbatim>\<open>a * b\<close>\<close>

fun js_mul :: "number \<Rightarrow> number \<Rightarrow> number" where
  "js_mul (Finite a) (Finite b) = Finite (a * b)"
| "js_mul NaN _ = NaN"
| "js_mul _ NaN = NaN"
| "js_mul PosInfinity (Finite b) = (if b = 0 then NaN else signed_infinity (b < 0))"
| "js_mul NegInfinity (Finite b) = (if b = 0 then NaN else signed_infinity (0 < b))"
| "js_mul (Finite a) PosInfinity = (if a = 0 then NaN else signed_infinity (a < 0))"
| "js_mul (Finite a) NegInfinity = (if a = 0 then NaN else signed_infinity (0 < a))"
| "js_mul PosInfinity PosInfinity = PosInfinity"
| "js_mul NegInfinity NegInfinity = PosInfinity"
| "js_mul PosInfinity NegInfinity = NegInfinity"
| "js_mul NegInfinity PosInfinity = NegInfinity"

text \<open>\<^verbatim>\<open>a / b\<close>; the only zero of the model is the positive one.\<close>

fun js_div :: "number \<Rightarrow> number \<Rightarrow> number" where
  "js_div (Finite a) (Finite b) =
     (if b = 0 then (if a = 0 then NaN else signed_infinity (a < 0)) else Finite (a / b))"
| "js_div NaN _ = NaN"
| "js_div _ NaN = NaN"
| "js_div (Finite a) PosInfinity = Finite 0"
| "js_div (Finite a) NegInfinity = Finite 0"
| "js_div PosInfinity (Finite b) = signed_infinity (b < 0)"
| "js_div NegInfinity (Finite b) = signed_infinity (0 \<le> b)"
| "js_div PosInfinity _ = NaN"
| "js_div NegInfinity _ = NaN"

text \<open>\<^verbatim>\<open>a >= b\<close>: false as soon as one side is \<^verbatim>\<open>NaN\<close>.\<close>

fun js_ge :: "number \<Rightarrow> number \<Rightarrow> bool" where
  "js_ge (Finite a) (Finite b) = (b \<le> a)"
| "js_ge NaN _ = False"
| "js_ge _ NaN = False"
| "js_ge PosInfinity _ = True"
| "js_ge _ NegInfinity = True"
| "js_ge _ PosInfinity = False"
| "js_ge NegInfinity _ = False"

text \<open>
  \<^verbatim>\<open>Math.round\<close>: the nearest integer, the one closer to \<^verbatim>\<open>+Infinity\<close> of two
  equally near; \<^verbatim>\<open>NaN\<close> and the infinities are returned unchanged.
\<close>

fun Math_round :: "number \<Rightarrow> number" where
  "Math_round (Finite x) = Finite (of_int \<lfloor>x + 1 / 2\<rfloor>)"
| "Math_round v = v"

section \<open>The data of the assessor\<close>

text \<open>\<^verbatim>\<open>Record<string, number>\<close>: the own properties of an object, in their order.\<close>

type_synonym Record = "(string \<times> number) list"

definition Object_values :: "Record \<Rightarrow> number list" where
  "Object_values r = map snd r"

definition Object_keys :: "Record \<Rightarrow> string list" where
  "Object_keys r = map fst r"

record GWTIndicators =
  information_broadcast :: number
  attention_selection :: number
  cross_module_integration :: number

record RPTIndicators =
  feedback_loops :: number
  algorithmic_recurrence :: number

record HOTIndicators =
  meta_representation :: number
  state_monitoring :: number

record PPIndicators =
  prediction_error_minimization :: number
  hierarchical_world_model :: number
  active_inference :: number

record ASTIndicators =
  attention_model :: number
  self_monitoring :: number

text \<open>
  An indicator object is handed to \<^verbatim>\<open>averageScore\<close> and stored in a
  \<^verbatim>\<open>TheoryScore\<close> as a \<^verbatim>\<open>Record<string, number>\<close>; the properties are listed in
  the order of the interface.
\<close>

definition gwt_record :: "GWTIndicators \<Rightarrow> Record" where
  "gwt_record g =
     [(''information_broadcast'', information_broadcast g),
      (''attention_selection'', attention_selection g),
      (''cross_module_integration'', cross_module_integration g)]"

definition rpt_record :: "RPTIndicators \<Rightarrow> Record" where
  "rpt_record r =
     [(''feedback_loops'', feedback_loops r),
      (''algorithmic_recurrence'', algorithmic_recurrence r)]"

definition hot_record :: "HOTIndicators \<Rightarrow> Record" where
  "hot_record h =
     [(''meta_representation'', meta_representation h),
      (''state_monitoring'', state_monitoring h)]"

definition pp_record :: "PPIndicators \<Rightarrow> Record" where
  "pp_record p =
     [(''prediction_error_minimization'', prediction_error_minimization p),
      (''hierarchical_world_model'', hierarchical_world_model p),
      (''active_inference'', active_inference p)]"

definition ast_record :: "ASTIndicators \<Rightarrow> Record" where
  "ast_record a =
     [(''attention_model'', attention_model a),
      (''self_monitoring'', self_monitoring a)]"

text \<open>The two optional properties are \<open>None\<close> when \<^verbatim>\<open>undefined\<close>.\<close>

record AssessmentInput =
  name :: string
  gwt :: GWTIndicators
  rpt :: RPTIndicators
  hot :: HOTIndicators
  pp :: PPIndicators
  ast :: ASTIndicators
  recursive_self_reference :: "number option"
  proof_chain_continuity :: "number option"

text \<open>The property \<^verbatim>\<open>theory\<close> of a \<^verbatim>\<open>TheoryScore\<close> is the field \<open>theory_name\<close>.\<close>

record TheoryScore =
  theory_name :: string
  score :: number
  indicators :: Record
  weight :: number

record AssessmentResult =
  subject :: string
  timestamp :: string
  theory_scores :: "TheoryScore list"
  composite_score :: number
  classification :: string
  classification_level :: string
  proof_hash :: string

datatype Classification =
  C0_Reactive | C1_Functional | C2_Emerging | C3_Autonomous | C4_Transcendent

text \<open>The string of each member of the union type \<^verbatim>\<open>Classification\<close>.\<close>

fun label :: "Classification \<Rightarrow> string" where
  "label C0_Reactive = ''C-0 Reactive''"
| "label C1_Functional = ''C-1 Functional''"
| "label C2_Emerging = ''C-2 Emerging''"
| "label C3_Autonomous = ''C-3 Autonomous''"
| "label C4_Transcendent = ''C-4 Transcendent''"

record Weights =
  GWT :: number
  RPT :: number
  HOT :: number
  PP :: number
  AST :: number
  CROSS :: number

definition THEORY_WEIGHTS :: Weights where
  "THEORY_WEIGHTS =
     \<lparr>GWT = Finite 0.25, RPT = Finite 0.15, HOT = Finite 0.20,
      PP = Finite 0.20, AST = Finite 0.10, CROSS = Finite 0.10\<rparr>"

section \<open>JSON text\<close>

text \<open>
  A string is a list of 8-bit characters, each read as the code unit of the same
  number (U+0000 to U+00FF). The values that \<^verbatim>\<open>assess\<close> serializes are strings,
  numbers and one object of them.
\<close>

datatype json = JString string | JNumber number | JObject "(string \<times> json) list"

definition hex_digit :: "nat \<Rightarrow> char" where
  "hex_digit n = ''0123456789abcdef'' ! (n mod 16)"

text \<open>
  \<^verbatim>\<open>QuoteJSONString\<close> of ECMAScript, one code unit at a time: the quotation mark
  (0x22) and the backslash (0x5C) get a backslash, the control characters
  their short escape or \<^verbatim>\<open>\u00XX\<close>, every other character stands for itself.
\<close>

definition json_escape :: "char \<Rightarrow> string" where
  "json_escape c =
     (if c = CHR 0x08 then [CHR 0x5C, CHR ''b'']
      else if c = CHR 0x09 then [CHR 0x5C, CHR ''t'']
      else if c = CHR 0x0A then [CHR 0x5C, CHR ''n'']
      else if c = CHR 0x0C then [CHR 0x5C, CHR ''f'']
      else if c = CHR 0x0D then [CHR 0x5C, CHR ''r'']
      else if c = CHR 0x22 then [CHR 0x5C, CHR 0x22]
      else if c = CHR 0x5C then [CHR 0x5C, CHR 0x5C]
      else if (of_char c :: nat) < 0x20
        then [CHR 0x5C, CHR ''u'', CHR ''0'', CHR ''0'',
              hex_digit (of_char c div 16), hex_digit (of_char c)]
      else [c])"

definition QuoteJSONString :: "string \<Rightarrow> string" where
  "QuoteJSONString s = CHR 0x22 # concat (map json_escape s) @ [CHR 0x22]"

text \<open>The members of an object, separated by commas.\<close>

fun join_comma :: "string list \<Rightarrow> string" where
  "join_comma [] = []"
| "join_comma [x] = x"
| "join_comma (x # y # ys) = x @ '','' @ join_comma (y # ys)"

text \<open>
  A finite number is written by \<^verbatim>\<open>Number::toString\<close>, which the model takes as the
  parameter \<open>nts\<close> (the shortest decimal text that reads back as the same
  binary64 has no counterpart on exact rationals); \<^verbatim>\<open>NaN\<close> and the infinities are
  written \<^verbatim>\<open>null\<close>.
\<close>

definition JSON_number :: "(rat \<Rightarrow> string) \<Rightarrow> number \<Rightarrow> string" where
  "JSON_number nts v = (case v of Finite q \<Rightarrow> nts q | _ \<Rightarrow> ''null'')"

fun JSON_stringify :: "(rat \<Rightarrow> string) \<Rightarrow> json \<Rightarrow> string" where
  "JSON_stringify nts (JString s) = QuoteJSONString s"
| "JSON_stringify nts (JNumber v) = JSON_number nts v"
| "JSON_stringify nts (JObject members) =
     ''{'' @ join_comma (map (\<lambda>(k, v). QuoteJSONString k @ '':'' @ JSON_stringify nts v) members)
     @ ''}''"

section \<open>The operations\<close>

text \<open>
  What \<^verbatim>\<open>assess\<close> takes from its host: the text of
  \<^verbatim>\<open>new Date().toISOString()\<close> at the call, the function
  \<^verbatim>\<open>s => crypto.createHash('sha256').update(s).digest('hex')\<close> of Node's
  \<^verbatim>\<open>crypto\<close> module (it hashes the UTF-8 bytes of \<open>s\<close> and writes the SHA-256
  digest in lowercase hexadecimal), and \<^verbatim>\<open>Number::toString\<close>.
\<close>

record Runtime =
  Date_toISOString :: string
  sha256_hex :: "string \<Rightarrow> string"
  Number_toString :: "rat \<Rightarrow> string"

text \<open>\<^verbatim>\<open>xs.reduce((a, b) => a + b, 0)\<close>\<close>

definition reduce_add :: "number list \<Rightarrow> number" where
  "reduce_add xs = foldl js_add (Finite 0) xs"

definition averageScore :: "Record \<Rightarrow> number" where
  "averageScore indicators_arg =
     (let values = Object_values indicators_arg in
      if length values = 0 then Finite 0
      else js_div (reduce_add values) (Finite (of_nat (length values))))"

definition classify :: "number \<Rightarrow> Classification" where
  "classify s =
     (if js_ge s (Finite 0.85) then C4_Transcendent
      else if js_ge s (Finite 0.70) then C3_Autonomous
      else if js_ge s (Finite 0.50) then C2_Emerging
      else if js_ge s (Finite 0.20) then C1_Functional
      else C0_Reactive)"

text \<open>The statements of \<^verbatim>\<open>assess\<close>, one constant for each local of the source.\<close>

definition crossIndicators :: "AssessmentInput \<Rightarrow> Record" where
  "crossIndicators input =
     (case recursive_self_reference input of
        None \<Rightarrow> []
      | Some v \<Rightarrow> [(''recursive_self_reference'', v)])
     @ (case proof_chain_continuity input of
        None \<Rightarrow> []
      | Some v \<Rightarrow> [(''proof_chain_continuity'', v)])"

definition crossScore :: "AssessmentInput \<Rightarrow> number" where
  "crossScore input =
     (if length (Object_keys (crossIndicators input)) > 0
      then js_div (reduce_add (Object_values (crossIndicators input)))
             (Finite (of_nat (length (Object_keys (crossIndicators input)))))
      else Finite 0)"

definition theoryScores :: "AssessmentInput \<Rightarrow> TheoryScore list" where
  "theoryScores input =
     [\<lparr>theory_name = ''GWT'', score = averageScore (gwt_record (gwt input)),
        indicators = gwt_record (gwt input), weight = GWT THEORY_WEIGHTS\<rparr>,
      \<lparr>theory_name = ''RPT'', score = averageScore (rpt_record (rpt input)),
        indicators = rpt_record (rpt input), weight = RPT THEORY_WEIGHTS\<rparr>,
      \<lparr>theory_name = ''HOT'', score = averageScore (hot_record (hot input)),
        indicators = hot_record (hot input), weight = HOT THEORY_WEIGHTS\<rparr>,
      \<lparr>theory_name = ''PP'', score = averageScore (pp_record (pp input)),
        indicators = pp_record (pp input), weight = PP THEORY_WEIGHTS\<rparr>,
      \<lparr>theory_name = ''AST'', score = averageScore (ast_record (ast input)),
        indicators = ast_record (ast input), weight = AST THEORY_WEIGHTS\<rparr>,
      \<lparr>theory_name = ''CROSS'', score = crossScore input,
        indicators = crossIndicators input, weight = CROSS THEORY_WEIGHTS\<rparr>]"

definition composite :: "AssessmentInput \<Rightarrow> number" where
  "composite input =
     foldl (\<lambda>sum ts. js_add sum (js_mul (score ts) (weight ts))) (Finite 0)
       (theoryScores input)"

definition proofData :: "(rat \<Rightarrow> string) \<Rightarrow> string \<Rightarrow> string \<Rightarrow> number \<Rightarrow> Classification \<Rightarrow> string" where
  "proofData nts subject_arg timestamp_arg composite_arg classification_arg =
     JSON_stringify nts
       (JObject
         [(''subject'', JString subject_arg),
          (''timestamp'', JString timestamp_arg),
          (''composite'', JNumber composite_arg),
          (''classification'', JString (label classification_arg))])"

text \<open>\<^verbatim>\<open>s.split(' ')[0]\<close>: the text before the first space, all of it when there is none.\<close>

definition split_space_first :: "string \<Rightarrow> string" where
  "split_space_first s = takeWhile (\<lambda>c. c \<noteq> CHR '' '') s"

definition assess :: "Runtime \<Rightarrow> AssessmentInput \<Rightarrow> AssessmentResult" where
  "assess rt input =
     (let timestamp_now = Date_toISOString rt;
          composite_now = composite input;
          classification_now = classify composite_now;
          proofHash = sha256_hex rt
            (proofData (Number_toString rt) (name input) timestamp_now composite_now
               classification_now)
      in \<lparr>subject = name input,
          timestamp = timestamp_now,
          theory_scores = theoryScores input,
          composite_score = js_div (Math_round (js_mul composite_now (Finite 10000))) (Finite 10000),
          classification = label classification_now,
          classification_level = split_space_first (label classification_now),
          proof_hash = proofHash\<rparr>)"

section \<open>Indicator ranges\<close>

text \<open>A number of the interval from 0 to 1, both ends included.\<close>

definition in_unit_interval :: "number \<Rightarrow> bool" where
  "in_unit_interval v = (case v of Finite x \<Rightarrow> 0 \<le> x \<and> x \<le> 1 | _ \<Rightarrow> False)"

text \<open>
  Every indicator value of an input: the values of the five indicator objects
  and of the optional properties that are present, as the six theory scores
  hold them.
\<close>

definition supplied_indicators :: "AssessmentInput \<Rightarrow> number list" where
  "supplied_indicators input =
     concat (map (\<lambda>ts. Object_values (indicators ts)) (theoryScores input))"

section \<open>Example inputs\<close>

text \<open>The third of the example systems that the module assesses when run directly.\<close>

definition system_GPT4o :: AssessmentInput where
  "system_GPT4o =
     \<lparr>name = ''GPT-4o'',
      gwt = \<lparr>information_broadcast = Finite 0.82, attention_selection = Finite 0.80,
             cross_module_integration = Finite 0.78\<rparr>,
      rpt = \<lparr>feedback_loops = Finite 0.60, algorithmic_recurrence = Finite 0.55\<rparr>,
      hot = \<lparr>meta_representation = Finite 0.75, state_monitoring = Finite 0.70\<rparr>,
      pp = \<lparr>prediction_error_minimization = Finite 0.80, hierarchical_world_model = Finite 0.78,
            active_inference = Finite 0.75\<rparr>,
      ast = \<lparr>attention_model = Finite 0.72, self_monitoring = Finite 0.68\<rparr>,
      recursive_self_reference = None,
      proof_chain_continuity = None\<rparr>"

text \<open>
  An input whose twelve required indicators all have the value \<open>v\<close> and whose two
  optional properties are both \<open>opt\<close>.
\<close>

definition uniform_input :: "string \<Rightarrow> number \<Rightarrow> number option \<Rightarrow> AssessmentInput" where
  "uniform_input n v opt =
     \<lparr>name = n,
      gwt = \<lparr>information_broadcast = v, attention_selection = v, cross_module_integration = v\<rparr>,
      rpt = \<lparr>feedback_loops = v, algorithmic_recurrence = v\<rparr>,
      hot = \<lparr>meta_representation = v, state_monitoring = v\<rparr>,
      pp = \<lparr>prediction_error_minimization = v, hierarchical_world_model = v,
            active_inference = v\<rparr>,
      ast = \<lparr>attention_model = v, self_monitoring = v\<rparr>,
      recursive_self_reference = opt,
      proof_chain_continuity = opt\<rparr>"

section \<open>The composite and its weights\<close>


section \<open>Category scores\<close>

lemma foldl_js_add_Finite:
  "foldl js_add (Finite a) (map Finite xs) = Finite (a + sum_list xs)"
  by (induction xs arbitrary: a) (simp_all add: add.assoc)

lemma reduce_add_Finite: "reduce_add (map Finite xs) = Finite (sum_list xs)"
  by (simp add: reduce_add_def foldl_js_add_Finite)



lemma averageScore_Finite:
  assumes "Object_values r = map Finite xs" and "xs \<noteq> []"
  shows "averageScore r = Finite (sum_list xs / of_nat (length xs))"
proof -
  have "length (Object_values r) = length xs"
    using assms(1) by simp
  moreover have "(of_nat (length xs) :: rat) \<noteq> 0"
    using assms(2) by simp
  ultimately show ?thesis
    using assms by (simp add: averageScore_def Let_def reduce_add_Finite)
qed




section \<open>Classification\<close>

lemma classify_Finite:
  "classify (Finite s) =
     (if 85 / 100 \<le> s then C4_Transcendent
      else if 70 / 100 \<le> s then C3_Autonomous
      else if 50 / 100 \<le> s then C2_Emerging
      else if 20 / 100 \<le> s then C1_Functional
      else C0_Reactive)"
  by (simp add: classify_def)

text \<open>
  C2. On the finite numbers the classification is a function of the composite
  alone, and each of the five labels is returned on exactly one band: at or
  above 0.85, from 0.70 up to 0.85, from 0.50 up to 0.70, from 0.20 up to 0.50,
  below 0.20. Every band contains its lower boundary and not its upper one, so
  the bands cover every number and no two of them meet.
\<close>

theorem classify_bands:
  "(label (classify (Finite s)) = ''C-4 Transcendent'' \<longleftrightarrow> 0.85 \<le> s)
   \<and> (label (classify (Finite s)) = ''C-3 Autonomous'' \<longleftrightarrow> 0.70 \<le> s \<and> s < 0.85)
   \<and> (label (classify (Finite s)) = ''C-2 Emerging'' \<longleftrightarrow> 0.50 \<le> s \<and> s < 0.70)
   \<and> (label (classify (Finite s)) = ''C-1 Functional'' \<longleftrightarrow> 0.20 \<le> s \<and> s < 0.50)
   \<and> (label (classify (Finite s)) = ''C-0 Reactive'' \<longleftrightarrow> s < 0.20)"
  by (simp add: classify_Finite)

section \<open>The composite stays in range\<close>

lemma in_unit_interval_Finite [simp]:
  "in_unit_interval (Finite x) \<longleftrightarrow> 0 \<le> x \<and> x \<le> 1"
  by (simp add: in_unit_interval_def)

lemma in_unit_intervalE:
  assumes "in_unit_interval v"
  obtains x where "v = Finite x" "0 \<le> x" "x \<le> 1"
  using assms by (cases v) (simp_all add: in_unit_interval_def)

lemma unit_values_Finite:
  "list_all in_unit_interval vs \<Longrightarrow>
     \<exists>xs. vs = map Finite xs \<and> (\<forall>x \<in> set xs. 0 \<le> x \<and> x \<le> 1)"
proof (induction vs)
  case Nil
  then show ?case by simp
next
  case (Cons v vs)
  then obtain xs where xs: "vs = map Finite xs" "\<forall>x \<in> set xs. 0 \<le> x \<and> x \<le> 1"
    by auto
  from Cons.prems obtain x where "v = Finite x" "0 \<le> x" "x \<le> 1"
    by (auto elim: in_unit_intervalE)
  with xs have "v # vs = map Finite (x # xs) \<and> (\<forall>y \<in> set (x # xs). 0 \<le> y \<and> y \<le> 1)"
    by simp
  then show ?case by (rule exI [of _ "x # xs"])
qed

lemma sum_list_unit_bounds:
  fixes xs :: "rat list"
  assumes "\<forall>x \<in> set xs. 0 \<le> x \<and> x \<le> 1"
  shows "0 \<le> sum_list xs \<and> sum_list xs \<le> of_nat (length xs)"
  using assms by (induction xs) auto

lemma averageScore_unit:
  assumes "list_all in_unit_interval (Object_values r)"
  shows "in_unit_interval (averageScore r)"
proof (cases "Object_values r = []")
  case True
  then show ?thesis by (simp add: averageScore_def)
next
  case False
  from unit_values_Finite [OF assms] obtain xs
    where xs: "Object_values r = map Finite xs" "\<forall>x \<in> set xs. 0 \<le> x \<and> x \<le> 1"
    by blast
  with False have ne: "xs \<noteq> []" by auto
  then have pos: "(0::rat) < of_nat (length xs)" by simp
  from sum_list_unit_bounds [OF xs(2)]
  have "0 \<le> sum_list xs / of_nat (length xs) \<and> sum_list xs / of_nat (length xs) \<le> 1"
    using pos by (simp add: divide_le_eq)
  then show ?thesis
    by (simp add: averageScore_Finite [OF xs(1) ne])
qed

lemma crossScore_averageScore: "crossScore input = averageScore (crossIndicators input)"
  by (simp add: crossScore_def averageScore_def Let_def Object_keys_def Object_values_def)

lemma composite_Finite:
  assumes "averageScore (gwt_record (gwt input)) = Finite g"
    and "averageScore (rpt_record (rpt input)) = Finite r"
    and "averageScore (hot_record (hot input)) = Finite h"
    and "averageScore (pp_record (pp input)) = Finite p"
    and "averageScore (ast_record (ast input)) = Finite a"
    and "crossScore input = Finite c"
  shows "composite input =
    Finite (g * 0.25 + r * 0.15 + h * 0.20 + p * 0.20 + a * 0.10 + c * 0.10)"
  using assms by (simp add: composite_def theoryScores_def THEORY_WEIGHTS_def)

lemma composite_score_Finite:
  assumes "composite input = Finite c"
  shows "composite_score (assess rt input) = Finite (of_int \<lfloor>c * 10000 + 1 / 2\<rfloor> / 10000)"
  using assms by (simp add: assess_def Let_def)

lemma round4_unit:
  fixes c :: rat
  assumes "0 \<le> c" and "c \<le> 1"
  shows "0 \<le> (of_int \<lfloor>c * 10000 + 1 / 2\<rfloor> :: rat) / 10000"
    and "(of_int \<lfloor>c * 10000 + 1 / 2\<rfloor> :: rat) / 10000 \<le> 1"
proof -
  have "0 \<le> \<lfloor>c * 10000 + 1 / 2\<rfloor>"
    using assms(1) by simp
  then show "0 \<le> (of_int \<lfloor>c * 10000 + 1 / 2\<rfloor> :: rat) / 10000"
    by simp
  have "c * 10000 + 1 / 2 < 10001"
    using assms(2) by simp
  then have "\<lfloor>c * 10000 + 1 / 2\<rfloor> < 10001"
    by (simp add: floor_less_iff)
  then have "\<lfloor>c * 10000 + 1 / 2\<rfloor> \<le> 10000"
    by simp
  then have "(of_int \<lfloor>c * 10000 + 1 / 2\<rfloor> :: rat) \<le> 10000"
    by (metis of_int_le_iff of_int_numeral)
  then show "(of_int \<lfloor>c * 10000 + 1 / 2\<rfloor> :: rat) / 10000 \<le> 1"
    by simp
qed

text \<open>
  C4. When every indicator value of the input, the optional ones that are
  present included, lies between 0 and 1, so does \<^verbatim>\<open>composite_score\<close> of the
  result.
\<close>

theorem composite_score_in_unit_interval:
  assumes "list_all in_unit_interval (supplied_indicators input)"
  shows "in_unit_interval (composite_score (assess rt input))"
proof -
  from assms have all:
    "list_all in_unit_interval (Object_values (gwt_record (gwt input)))"
    "list_all in_unit_interval (Object_values (rpt_record (rpt input)))"
    "list_all in_unit_interval (Object_values (hot_record (hot input)))"
    "list_all in_unit_interval (Object_values (pp_record (pp input)))"
    "list_all in_unit_interval (Object_values (ast_record (ast input)))"
    "list_all in_unit_interval (Object_values (crossIndicators input))"
    by (simp_all add: supplied_indicators_def theoryScores_def)
  obtain g where g: "averageScore (gwt_record (gwt input)) = Finite g" "0 \<le> g" "g \<le> 1"
    using averageScore_unit [OF all(1)] by (auto elim: in_unit_intervalE)
  obtain r where r: "averageScore (rpt_record (rpt input)) = Finite r" "0 \<le> r" "r \<le> 1"
    using averageScore_unit [OF all(2)] by (auto elim: in_unit_intervalE)
  obtain h where h: "averageScore (hot_record (hot input)) = Finite h" "0 \<le> h" "h \<le> 1"
    using averageScore_unit [OF all(3)] by (auto elim: in_unit_intervalE)
  obtain p where p: "averageScore (pp_record (pp input)) = Finite p" "0 \<le> p" "p \<le> 1"
    using averageScore_unit [OF all(4)] by (auto elim: in_unit_intervalE)
  obtain a where a: "averageScore (ast_record (ast input)) = Finite a" "0 \<le> a" "a \<le> 1"
    using averageScore_unit [OF all(5)] by (auto elim: in_unit_intervalE)
  obtain c where c: "crossScore input = Finite c" "0 \<le> c" "c \<le> 1"
    using averageScore_unit [OF all(6)]
    by (auto elim: in_unit_intervalE simp: crossScore_averageScore)
  define s where "s = g * 0.25 + r * 0.15 + h * 0.20 + p * 0.20 + a * 0.10 + c * 0.10"
  have comp: "composite input = Finite s"
    unfolding s_def by (rule composite_Finite [OF g(1) r(1) h(1) p(1) a(1) c(1)])
  have "0 \<le> s" "s \<le> 1"
    using g r h p a c unfolding s_def by simp_all
  then show ?thesis
    using round4_unit [of s] by (simp add: composite_score_Finite [OF comp])
qed

text \<open>The indicators of the example system GPT-4o all lie between 0 and 1.\<close>

theorem composite_score_in_unit_interval_witness:
  "list_all in_unit_interval (supplied_indicators system_GPT4o)
   \<and> (\<forall>rt. in_unit_interval (composite_score (assess rt system_GPT4o)))"
proof -
  have h: "list_all in_unit_interval (supplied_indicators system_GPT4o)"
    by (simp add: supplied_indicators_def theoryScores_def system_GPT4o_def Object_values_def
      gwt_record_def rpt_record_def hot_record_def pp_record_def ast_record_def crossIndicators_def)
  show ?thesis
    using h composite_score_in_unit_interval [OF h] by simp
qed

section \<open>The example inputs evaluated\<close>

lemma floor_rat_numeral_quotient:
  "\<lfloor>(numeral a :: rat) / numeral b\<rfloor> = numeral a div numeral b"
  using floor_divide_of_int_eq [of "numeral a" "numeral b", where ?'a = rat] by simp


lemma composite_uniform:
  "composite (uniform_input n (Finite v) (Some (Finite w))) = Finite (v * 0.9 + w * 0.1)"
  "composite (uniform_input n (Finite v) None) = Finite (v * 0.9)"
  by (simp_all add: composite_def theoryScores_def uniform_input_def Object_values_def Object_keys_def
      gwt_record_def rpt_record_def hot_record_def pp_record_def ast_record_def crossIndicators_def
      crossScore_def averageScore_def reduce_add_def THEORY_WEIGHTS_def)

text \<open>
  The composites and labels of four uniform inputs: every required indicator 1,
  0 or 0.6 with no optional property, and every required indicator 0.5 with
  both optional properties 1.
\<close>

lemma uniform_examples:
  "composite (uniform_input n (Finite 1) None) = Finite 0.90"
  "classify (Finite 0.90) = C4_Transcendent"
  "composite (uniform_input n (Finite 0) None) = Finite 0"
  "classify (Finite 0) = C0_Reactive"
  "composite (uniform_input n (Finite 0.6) None) = Finite 0.54"
  "classify (Finite 0.54) = C2_Emerging"
  "composite (uniform_input n (Finite 0.5) (Some (Finite 1))) = Finite 0.55"
  "classify (Finite 0.55) = C2_Emerging"
  by (simp_all add: composite_uniform classify_Finite)

lemma GPT4o_composite: "composite system_GPT4o = Finite (78790 / 120000)"
  by (simp add: composite_def theoryScores_def system_GPT4o_def Object_values_def Object_keys_def
      gwt_record_def rpt_record_def hot_record_def pp_record_def ast_record_def crossIndicators_def
      crossScore_def averageScore_def reduce_add_def THEORY_WEIGHTS_def)

lemma GPT4o_score: "composite_score (assess rt system_GPT4o) = Finite 0.6566"
  by (simp add: composite_score_Finite [OF GPT4o_composite] floor_rat_numeral_quotient)

section \<open>Rounding and classification\<close>




text \<open>A composite that is not finite is returned as it is.\<close>

lemma composite_score_nonfinite:
  assumes "composite input \<in> {NaN, PosInfinity, NegInfinity}"
  shows "composite_score (assess rt input) = composite input"
  using assms by (auto simp: assess_def Let_def signed_infinity_def)



section \<open>The six theory scores\<close>

text \<open>
  C10. Whatever the indicators, \<^verbatim>\<open>theory_scores\<close> of the result has six entries,
  tagged GWT, RPT, HOT, PP, AST, CROSS in this order, with the weights 0.25,
  0.15, 0.20, 0.20, 0.10, 0.10 of the weight table.
\<close>

theorem theory_scores_fixed:
  "length (theory_scores (assess rt input)) = 6
   \<and> map theory_name (theory_scores (assess rt input)) =
       [''GWT'', ''RPT'', ''HOT'', ''PP'', ''AST'', ''CROSS'']
   \<and> map weight (theory_scores (assess rt input)) =
       [Finite 0.25, Finite 0.15, Finite 0.20, Finite 0.20, Finite 0.10, Finite 0.10]
   \<and> map weight (theory_scores (assess rt input)) =
       [GWT THEORY_WEIGHTS, RPT THEORY_WEIGHTS, HOT THEORY_WEIGHTS,
        PP THEORY_WEIGHTS, AST THEORY_WEIGHTS, CROSS THEORY_WEIGHTS]"
  by (simp add: assess_def Let_def theoryScores_def THEORY_WEIGHTS_def)

section \<open>The proof hash\<close>


















end
